theory Spec2Isabelle
  imports Main "HOL-Library.Multiset" "HOL-Library.Char_ord" "HOL-Library.List_Lexorder"
begin

section \<open>Values of the client language\<close>

text \<open>
  The numeric fields of the documents (\<open>quantity\<close>, \<open>amount\<close>) are JavaScript numbers:
  IEEE double-precision values. Every number the three applications produce themselves
  (the seed data, \<open>parseInt\<close>, \<open>+ 10\<close>, subtraction) is an integer, an infinity or \<open>NaN\<close>,
  so a number is \<open>Num n\<close> for an integer \<open>n\<close>, \<open>PosInf\<close>, \<open>NegInf\<close> or \<open>NaN\<close>. Fractions are
  outside the model and \<open>-0\<close> is not told from \<open>0\<close>.
\<close>

datatype jsnum = Num int | NaN | PosInf | NegInf

text \<open>The number of binary digits of \<open>n\<close>.\<close>

fun bit_length :: "nat \<Rightarrow> nat" where
  "bit_length n = (if n = 0 then 0 else Suc (bit_length (n div 2)))"

declare bit_length.simps [simp del]

text \<open>The quotient of \<open>m\<close> by \<open>u\<close> rounded to the nearest integer, a tie to the even one.\<close>

definition round_half_even :: "nat \<Rightarrow> nat \<Rightarrow> nat" where
  "round_half_even m u =
     (let q = m div u; r = m mod u in
      if 2 * r < u then q
      else if u < 2 * r then q + 1
      else if even q then q else q + 1)"

definition overflow_bound :: nat where
  "overflow_bound = 2 ^ 1024"

text \<open>
  The double nearest to an integer: the integer itself when it has at most 53 binary digits,
  otherwise its 53 leading digits rounded to nearest, ties to even, and an infinity from
  \<open>2^1024\<close> on. On two doubles an addition or a subtraction of the language is the exact
  result rounded in this way.
\<close>

definition to_double :: "int \<Rightarrow> jsnum" where
  "to_double n =
     (let m = nat \<bar>n\<bar>; e = bit_length m in
      if e \<le> 53 then Num n
      else
        let u = 2 ^ (e - 53); v = round_half_even m u * u in
        if overflow_bound \<le> v then (if n < 0 then NegInf else PosInf)
        else Num (if n < 0 then - int v else int v))"

fun js_add :: "jsnum \<Rightarrow> jsnum \<Rightarrow> jsnum" where
  "js_add (Num a) (Num b) = to_double (a + b)"
| "js_add NaN _ = NaN"
| "js_add _ NaN = NaN"
| "js_add PosInf NegInf = NaN"
| "js_add NegInf PosInf = NaN"
| "js_add PosInf _ = PosInf"
| "js_add _ PosInf = PosInf"
| "js_add NegInf _ = NegInf"
| "js_add _ NegInf = NegInf"

fun js_sub :: "jsnum \<Rightarrow> jsnum \<Rightarrow> jsnum" where
  "js_sub (Num a) (Num b) = to_double (a - b)"
| "js_sub NaN _ = NaN"
| "js_sub _ NaN = NaN"
| "js_sub PosInf PosInf = NaN"
| "js_sub NegInf NegInf = NaN"
| "js_sub PosInf _ = PosInf"
| "js_sub _ NegInf = PosInf"
| "js_sub NegInf _ = NegInf"
| "js_sub _ PosInf = NegInf"

text \<open>A comparison with \<open>NaN\<close> on either side is false.\<close>

fun js_lt :: "jsnum \<Rightarrow> jsnum \<Rightarrow> bool" where
  "js_lt (Num a) (Num b) = (a < b)"
| "js_lt NaN _ = False"
| "js_lt _ NaN = False"
| "js_lt _ NegInf = False"
| "js_lt NegInf _ = True"
| "js_lt PosInf _ = False"
| "js_lt _ PosInf = True"

fun js_ge :: "jsnum \<Rightarrow> jsnum \<Rightarrow> bool" where
  "js_ge (Num a) (Num b) = (b \<le> a)"
| "js_ge NaN _ = False"
| "js_ge _ NaN = False"
| "js_ge PosInf _ = True"
| "js_ge _ NegInf = True"
| "js_ge NegInf _ = False"
| "js_ge _ PosInf = False"

text \<open>\<open>s.startsWith(p)\<close>.\<close>

definition startsWith :: "string \<Rightarrow> string \<Rightarrow> bool" where
  "startsWith s p = (take (length p) s = p)"

text \<open>\<open>s.split(sep)[0]\<close> for a one-character separator: the text before its first occurrence,
  the whole string when it does not occur.\<close>

definition split_first :: "char \<Rightarrow> string \<Rightarrow> string" where
  "split_first sep s = takeWhile (\<lambda>c. c \<noteq> sep) s"

subsection \<open>Dates\<close>

text \<open>
  A \<open>Date\<close> is held by its UTC components, which is all \<open>toISOString\<close> reads. The clock
  (\<open>new Date()\<close>) is an input of every handler that reads it, one reading per call in the
  source.
\<close>

record jsdate =
  year :: int
  month :: nat
  day :: nat
  hours :: nat
  minutes :: nat
  seconds :: nat
  millis :: nat

definition digit_char :: "nat \<Rightarrow> char" where
  "digit_char n = ''0123456789'' ! (n mod 10)"

text \<open>The last \<open>k\<close> decimal digits of \<open>n\<close>, zero-padded.\<close>

fun pad :: "nat \<Rightarrow> nat \<Rightarrow> string" where
  "pad 0 n = []"
| "pad (Suc k) n = pad k (n div 10) @ [digit_char n]"

definition fmt_year :: "int \<Rightarrow> string" where
  "fmt_year y =
     (if 0 \<le> y \<and> y \<le> 9999 then pad 4 (nat y)
      else (if y < 0 then ''-'' else ''+'') @ pad 6 (nat \<bar>y\<bar>))"

definition iso_date :: "jsdate \<Rightarrow> string" where
  "iso_date d = fmt_year (year d) @ ''-'' @ pad 2 (month d) @ ''-'' @ pad 2 (day d)"

definition toISOString :: "jsdate \<Rightarrow> string" where
  "toISOString d =
     iso_date d @ ''T'' @ pad 2 (hours d) @ '':'' @ pad 2 (minutes d) @ '':'' @
     pad 2 (seconds d) @ ''.'' @ pad 3 (millis d) @ ''Z''"

subsection \<open>\<open>parseInt\<close>\<close>

text \<open>
  \<open>parseInt(s)\<close> without a radix: leading white space is dropped, then an optional sign, then
  an optional \<open>0x\<close>/\<open>0X\<close> that selects radix 16, then the longest run of digits of the radix;
  no digit gives \<open>NaN\<close>, and the value of the digits is taken as a double. Beyond 20
  significant digits the language lets an engine drop digits before it rounds; the model
  rounds the exact value. Characters are bytes here, so only the ASCII white space is
  recognised.
\<close>

definition is_space :: "char \<Rightarrow> bool" where
  "is_space c = (c \<in> set [CHR '' '', CHR 0x09, CHR 0x0A, CHR 0x0B, CHR 0x0C, CHR 0x0D])"

definition digit_val :: "char \<Rightarrow> nat option" where
  "digit_val c =
     (let n = (of_char c :: nat) in
      if 48 \<le> n \<and> n \<le> 57 then Some (n - 48)
      else if 97 \<le> n \<and> n \<le> 122 then Some (n - 87)
      else if 65 \<le> n \<and> n \<le> 90 then Some (n - 55)
      else None)"

definition is_digit :: "nat \<Rightarrow> char \<Rightarrow> bool" where
  "is_digit radix c = (case digit_val c of None \<Rightarrow> False | Some v \<Rightarrow> v < radix)"

definition digits_value :: "nat \<Rightarrow> string \<Rightarrow> nat" where
  "digits_value radix z = foldl (\<lambda>acc c. acc * radix + the (digit_val c)) 0 z"

definition parseInt :: "string \<Rightarrow> jsnum" where
  "parseInt inputString =
     (let s = dropWhile is_space inputString;
          negative = (s \<noteq> [] \<and> hd s = CHR ''-'');
          s1 = (if s \<noteq> [] \<and> (hd s = CHR ''+'' \<or> hd s = CHR ''-'') then tl s else s);
          hex = (take 2 s1 = ''0x'' \<or> take 2 s1 = ''0X'');
          radix = (if hex then 16 else 10);
          s2 = (if hex then drop 2 s1 else s1);
          z = takeWhile (is_digit radix) s2
      in if z = [] then NaN
         else if negative then to_double (- int (digits_value radix z))
         else to_double (int (digits_value radix z)))"

section \<open>The document store\<close>

text \<open>
  A collection is the list of its documents with their identifiers, in the order in which
  the store lists them in a snapshot. Identifiers are unique in a collection of the store;
  the theorems that need it assume \<open>distinct (map fst c)\<close>.
\<close>

type_synonym doc_id = string
type_synonym 'd coll = "(doc_id \<times> 'd) list"

definition exists_doc :: "'d coll \<Rightarrow> doc_id \<Rightarrow> bool" where
  "exists_doc c i = (i \<in> set (map fst c))"

text \<open>A partial field merge into the document \<open>i\<close>; every other document is kept.\<close>

definition merge_doc :: "doc_id \<Rightarrow> ('d \<Rightarrow> 'd) \<Rightarrow> 'd coll \<Rightarrow> 'd coll" where
  "merge_doc i f c = map (\<lambda>(j, d). if j = i then (j, f d) else (j, d)) c"

text \<open>\<open>updateDoc\<close>: fails (here \<open>None\<close>) when the document does not exist.\<close>

definition updateDoc :: "'d coll \<Rightarrow> doc_id \<Rightarrow> ('d \<Rightarrow> 'd) \<Rightarrow> 'd coll option" where
  "updateDoc c i f = (if exists_doc c i then Some (merge_doc i f c) else None)"

text \<open>\<open>addDoc\<close>: the identifier is generated by the client library and passed in here; the
  write is a creation, which fails when the identifier is already taken.\<close>

definition addDoc :: "'d coll \<Rightarrow> doc_id \<Rightarrow> 'd \<Rightarrow> 'd coll option" where
  "addDoc c newId d = (if exists_doc c newId then None else Some (c @ [(newId, d)]))"

subsection \<open>Inventory and requests\<close>

datatype stamp = Null | Stamp string

record inventory_doc =
  item :: string
  quantity :: jsnum
  unit_name :: string
  expiration :: string
  lastUpdated :: string

text \<open>Fields that a request document may lack are optional: the seeded requests have no
  \<open>contactEmail\<close> and no \<open>timestamp\<close>, and \<open>processedBy\<close> appears with the first status
  update.\<close>

record request_doc =
  organization :: string
  req_item :: string
  amount :: jsnum
  status :: string
  contactEmail :: "string option"
  requestedDate :: string
  processedBy :: "stamp option"
  timestamp :: "string option"

record store =
  inventory_coll :: "inventory_doc coll"
  requests_coll :: "request_doc coll"

text \<open>The two payloads that the dashboard puts into a write batch.\<close>

datatype batch_write =
  RequestUpdate doc_id string stamp
| InventoryUpdate doc_id jsnum string

fun write_target_exists :: "store \<Rightarrow> batch_write \<Rightarrow> bool" where
  "write_target_exists s (RequestUpdate i st pb) = exists_doc (requests_coll s) i"
| "write_target_exists s (InventoryUpdate i q lu) = exists_doc (inventory_coll s) i"

fun apply_write :: "store \<Rightarrow> batch_write \<Rightarrow> store" where
  "apply_write s (RequestUpdate i st pb) =
     s\<lparr>requests_coll := merge_doc i (\<lambda>d. d\<lparr>status := st, processedBy := Some pb\<rparr>) (requests_coll s)\<rparr>"
| "apply_write s (InventoryUpdate i q lu) =
     s\<lparr>inventory_coll := merge_doc i (\<lambda>d. d\<lparr>quantity := q, lastUpdated := lu\<rparr>) (inventory_coll s)\<rparr>"

text \<open>\<open>batch.commit()\<close>: all writes are applied, or none is: an update of a document that does
  not exist rejects the whole batch.\<close>

definition commit :: "store \<Rightarrow> batch_write list \<Rightarrow> store option" where
  "commit s batch =
     (if list_all (write_target_exists s) batch then Some (foldl apply_write s batch) else None)"

section \<open>The dashboard\<close>

text \<open>
  What the dashboard's components receive: \<open>db\<close> is true when the store handle has been set,
  \<open>inventory\<close> and \<open>requests\<close> are the client's copies of the two collections, each
  element a document with its identifier (\<open>{id: doc.id, ...doc.data()}\<close>).
\<close>

record props =
  db :: bool
  isAuthReady :: bool
  inventory :: "inventory_doc coll"
  requests :: "request_doc coll"

text \<open>The two listeners hand the delivered documents to the state unchanged and in the
  delivered order.\<close>

definition inventory_onSnapshot :: "inventory_doc coll \<Rightarrow> inventory_doc coll" where
  "inventory_onSnapshot docs = map (\<lambda>doc. (fst doc, snd doc)) docs"

definition requests_onSnapshot :: "request_doc coll \<Rightarrow> request_doc coll" where
  "requests_onSnapshot docs = map (\<lambda>doc. (fst doc, snd doc)) docs"

text \<open>The props after both listeners have delivered the current state of the store.\<close>

definition synced_props :: "bool \<Rightarrow> bool \<Rightarrow> store \<Rightarrow> props" where
  "synced_props d a s =
     \<lparr>db = d, isAuthReady = a,
      inventory = inventory_onSnapshot (inventory_coll s),
      requests = requests_onSnapshot (requests_coll s)\<rparr>"

datatype outcome = NotReady | NoSuchItem | InsufficientStock | WriteError | Written

subsection \<open>Restock\<close>

definition handleUpdateStock :: "props \<Rightarrow> jsdate \<Rightarrow> store \<Rightarrow> doc_id \<Rightarrow> outcome \<times> store" where
  "handleUpdateStock p now s itemId =
     (if \<not> db p \<or> \<not> isAuthReady p then (NotReady, s)
      else case find (\<lambda>i. fst i = itemId) (inventory p) of
        None \<Rightarrow> (NoSuchItem, s)
      | Some item0 \<Rightarrow>
          let newQuantity = js_add (quantity (snd item0)) (Num 10) in
          (case updateDoc (inventory_coll s) itemId
                  (\<lambda>d. d\<lparr>quantity := newQuantity, lastUpdated := toISOString now\<rparr>) of
             None \<Rightarrow> (WriteError, s)
           | Some c \<Rightarrow> (Written, s\<lparr>inventory_coll := c\<rparr>)))"

subsection \<open>Status update\<close>

text \<open>
  The request's update is staged first; for \<open>Shipped\<close> the inventory is looked up in the
  client's copy and the handler returns before the commit when the item is missing or the
  new quantity is negative. \<open>now1\<close> and \<open>now2\<close> are the two readings of the clock.
\<close>

definition handleStatusUpdate ::
  "props \<Rightarrow> jsdate \<Rightarrow> jsdate \<Rightarrow> store \<Rightarrow> doc_id \<Rightarrow> string \<Rightarrow> jsnum \<Rightarrow> string \<Rightarrow> outcome \<times> store"
where
  "handleStatusUpdate p now1 now2 s requestId requestItem requestAmount newStatus =
     (if \<not> db p \<or> \<not> isAuthReady p then (NotReady, s)
      else
        let batch = [RequestUpdate requestId newStatus
                       (if newStatus \<noteq> ''Pending'' then Stamp (toISOString now1) else Null)]
        in
        if newStatus = ''Shipped'' then
          (case find (\<lambda>i. item (snd i) = requestItem) (inventory p) of
             None \<Rightarrow> (NoSuchItem, s)
           | Some inventoryItem \<Rightarrow>
               let newQuantity = js_sub (quantity (snd inventoryItem)) requestAmount in
               if js_lt newQuantity (Num 0) then (InsufficientStock, s)
               else
                 (case commit s (batch @
                         [InventoryUpdate (fst inventoryItem) newQuantity (toISOString now2)]) of
                    None \<Rightarrow> (WriteError, s)
                  | Some s' \<Rightarrow> (Written, s')))
        else
          (case commit s batch of
             None \<Rightarrow> (WriteError, s)
           | Some s' \<Rightarrow> (Written, s')))"

text \<open>The batch that the handler commits on the \<open>Shipped\<close> path.\<close>

definition ship_batch :: "jsdate \<Rightarrow> jsdate \<Rightarrow> doc_id \<Rightarrow> doc_id \<Rightarrow> jsnum \<Rightarrow> batch_write list" where
  "ship_batch now1 now2 requestId inventoryId newQuantity =
     [RequestUpdate requestId ''Shipped'' (Stamp (toISOString now1)),
      InventoryUpdate inventoryId newQuantity (toISOString now2)]"

subsection \<open>The buttons of a request\<close>

definition isShippable :: "props \<Rightarrow> doc_id \<times> request_doc \<Rightarrow> bool" where
  "isShippable p request =
     (case find (\<lambda>i. item (snd i) = req_item (snd request)) (inventory p) of
        None \<Rightarrow> False
      | Some inventoryItem \<Rightarrow> js_ge (quantity (snd inventoryItem)) (amount (snd request)))"

datatype button = Approve | Ship | Reset

fun button_status :: "button \<Rightarrow> string" where
  "button_status Approve = ''Approved''"
| "button_status Ship = ''Shipped''"
| "button_status Reset = ''Pending''"

text \<open>Whether the button is rendered for the request, and whether it is disabled.\<close>

fun button_shown :: "doc_id \<times> request_doc \<Rightarrow> button \<Rightarrow> bool" where
  "button_shown request Approve = (status (snd request) = ''Pending'')"
| "button_shown request Ship = (status (snd request) = ''Approved'')"
| "button_shown request Reset =
     (status (snd request) = ''Approved'' \<or> status (snd request) = ''Shipped'')"

fun button_disabled :: "props \<Rightarrow> doc_id \<times> request_doc \<Rightarrow> button \<Rightarrow> bool" where
  "button_disabled p request Approve = (\<not> isAuthReady p)"
| "button_disabled p request Ship = (\<not> isAuthReady p \<or> \<not> isShippable p request)"
| "button_disabled p request Reset = (\<not> isAuthReady p)"

text \<open>
  A click on a button of a request: the handler runs when the request is one of the rendered
  ones and the button is rendered and enabled; nothing happens otherwise.
\<close>

definition click ::
  "props \<Rightarrow> jsdate \<Rightarrow> jsdate \<Rightarrow> store \<Rightarrow> doc_id \<times> request_doc \<Rightarrow> button \<Rightarrow> store" where
  "click p now1 now2 s request b =
     (if request \<in> set (requests p) \<and> button_shown request b \<and> \<not> button_disabled p request b
      then snd (handleStatusUpdate p now1 now2 s (fst request) (req_item (snd request))
                  (amount (snd request)) (button_status b))
      else s)"

subsection \<open>The seed data\<close>

definition initialData :: "jsdate \<Rightarrow> inventory_doc list" where
  "initialData now =
     [\<lparr>item = ''Canned Beans'', quantity = Num 450, unit_name = ''cases'',
       expiration = ''2026-08-01'', lastUpdated = toISOString now\<rparr>,
      \<lparr>item = ''Fresh Produce Mix'', quantity = Num 120, unit_name = ''crates'',
       expiration = ''2025-10-15'', lastUpdated = toISOString now\<rparr>,
      \<lparr>item = ''Dry Pasta'', quantity = Num 600, unit_name = ''boxes'',
       expiration = ''2027-01-20'', lastUpdated = toISOString now\<rparr>,
      \<lparr>item = ''Dairy (UHT Milk)'', quantity = Num 30, unit_name = ''gallons'',
       expiration = ''2025-11-05'', lastUpdated = toISOString now\<rparr>]"

definition initialRequests :: "request_doc list" where
  "initialRequests =
     [\<lparr>organization = ''Community Shelter A'', req_item = ''Canned Beans'', amount = Num 50,
       status = ''Pending'', contactEmail = None, requestedDate = ''2025-10-08'',
       processedBy = None, timestamp = None\<rparr>,
      \<lparr>organization = ''Food Bank Central'', req_item = ''Dry Pasta'', amount = Num 100,
       status = ''Approved'', contactEmail = None, requestedDate = ''2025-10-07'',
       processedBy = None, timestamp = None\<rparr>]"

section \<open>The request form\<close>

record form =
  organizationName :: string
  requestedItem :: string
  amount_input :: string
  contactEmail_input :: string

text \<open>
  \<open>handleSubmit\<close> returns the submission status, the form state and the requests collection.
  \<open>now1\<close> and \<open>now2\<close> are the two readings of the clock, \<open>newId\<close> the identifier that
  \<open>addDoc\<close> generates. The \<open>amount\<close> state is the number 10 or the text of the input; the
  number is the text \<open>10\<close> to \<open>parseInt\<close>.
\<close>

definition handleSubmit ::
  "bool \<Rightarrow> bool \<Rightarrow> jsdate \<Rightarrow> jsdate \<Rightarrow> doc_id \<Rightarrow> form \<Rightarrow> request_doc coll
     \<Rightarrow> string \<times> form \<times> request_doc coll" where
  "handleSubmit db0 authReady now1 now2 newId f reqs =
     (if \<not> db0 \<or> \<not> authReady then (''error'', f, reqs)
      else
        let newRequest =
              \<lparr>organization = organizationName f,
               req_item = requestedItem f,
               amount = parseInt (amount_input f),
               status = ''Pending'',
               contactEmail = Some (contactEmail_input f),
               requestedDate = split_first (CHR ''T'') (toISOString now1),
               processedBy = None,
               timestamp = Some (toISOString now2)\<rparr>
        in case addDoc reqs newId newRequest of
             Some reqs' \<Rightarrow>
               (''success'',
                f\<lparr>organizationName := [], amount_input := ''10'', contactEmail_input := []\<rparr>,
                reqs')
           | None \<Rightarrow> (''error'', f, reqs))"

section \<open>The portal of distribution records\<close>

text \<open>
  The listener turns a record's \<open>timestamp\<close> into a \<open>Date\<close> and reads it through
  \<open>getTime()\<close> only. The field is held as that time value: \<open>Num\<close> of the milliseconds, or
  \<open>NaN\<close> for an Invalid Date, which is what a missing, unparsable or out-of-range value
  gives.
\<close>

record record_doc =
  recipientId :: string
  foodItem :: string
  rec_quantity :: jsnum
  location :: string
  rec_status :: string
  rec_timestamp :: jsnum

text \<open>The user identifier is \<open>None\<close> for \<open>null\<close>; the empty string is falsy as well.\<close>

definition truthy :: "string option \<Rightarrow> bool" where
  "truthy userId = (case userId of None \<Rightarrow> False | Some u \<Rightarrow> u \<noteq> [])"

definition isManager :: "string option \<Rightarrow> bool" where
  "isManager userId =
     (case userId of None \<Rightarrow> False | Some u \<Rightarrow> u \<noteq> [] \<and> startsWith u ''manager-'')"

definition isCitizen :: "string option \<Rightarrow> bool" where
  "isCitizen userId =
     (case userId of None \<Rightarrow> False | Some u \<Rightarrow> u \<noteq> [] \<and> startsWith u ''citizen-'')"

text \<open>The documents that the store delivers for the query: all of them, or for a citizen
  those that satisfy \<open>where('recipientId', '==', userId)\<close>.\<close>

definition recordsQuery :: "string option \<Rightarrow> record_doc coll \<Rightarrow> record_doc coll" where
  "recordsQuery userId c =
     (if isCitizen userId
      then filter (\<lambda>doc. Some (recipientId (snd doc)) = userId) c
      else c)"

text \<open>
  \<open>Array.prototype.sort\<close> with a comparison function is stable; with a consistent
  comparison its result is that of the insertion sort below. An element goes behind another
  only when the comparison is positive; a \<open>NaN\<close> comparison counts as zero. Where the
  comparison is not consistent the language leaves the order to the engine; the model's is
  that of the insertion.
\<close>

fun insert_cmp :: "('a \<Rightarrow> 'a \<Rightarrow> jsnum) \<Rightarrow> 'a \<Rightarrow> 'a list \<Rightarrow> 'a list" where
  "insert_cmp cmp x [] = [x]"
| "insert_cmp cmp x (y # ys) =
     (if js_lt (Num 0) (cmp x y) then y # insert_cmp cmp x ys else x # y # ys)"

fun sort_cmp :: "('a \<Rightarrow> 'a \<Rightarrow> jsnum) \<Rightarrow> 'a list \<Rightarrow> 'a list" where
  "sort_cmp cmp [] = []"
| "sort_cmp cmp (x # xs) = insert_cmp cmp x (sort_cmp cmp xs)"

definition records_onSnapshot :: "record_doc coll \<Rightarrow> record_doc coll" where
  "records_onSnapshot docs =
     sort_cmp (\<lambda>a b. js_sub (rec_timestamp (snd b)) (rec_timestamp (snd a)))
       (map (\<lambda>doc. (fst doc, snd doc)) docs)"

text \<open>The \<open>records\<close> state that is rendered once the listener has delivered the current
  collection; without a store handle or a user identifier nothing is subscribed and the
  state keeps its initial value.\<close>

definition records_rendered :: "bool \<Rightarrow> string option \<Rightarrow> record_doc coll \<Rightarrow> record_doc coll" where
  "records_rendered db0 userId c =
     (if \<not> db0 \<or> \<not> truthy userId then []
      else records_onSnapshot (recordsQuery userId c))"

text \<open>\<open>updateRecordStatus\<close> returns the error that is shown, if any, and the collection.\<close>

definition updateRecordStatus ::
  "bool \<Rightarrow> string option \<Rightarrow> record_doc coll \<Rightarrow> doc_id \<Rightarrow> string
     \<Rightarrow> string option \<times> record_doc coll" where
  "updateRecordStatus db0 userId c recordId newStatus =
     (if \<not> db0 \<or> \<not> isManager userId then (None, c)
      else case updateDoc c recordId (\<lambda>d. d\<lparr>rec_status := newStatus\<rparr>) of
             Some c' \<Rightarrow> (None, c')
           | None \<Rightarrow> (Some ''Failed to update record status.'', c))"

section \<open>Notions used in the statements\<close>

text \<open>A list is newest first when the time keys never increase along it.\<close>

definition newest_first :: "('a \<Rightarrow> 'k::linorder) \<Rightarrow> 'a list \<Rightarrow> bool" where
  "newest_first key xs = sorted_wrt (\<lambda>a b. key b \<le> key a) xs"

text \<open>A time value is valid when it is not that of an Invalid Date; \<open>time_ms\<close> reads its
  milliseconds.\<close>

fun valid_time :: "jsnum \<Rightarrow> bool" where
  "valid_time (Num t) = True"
| "valid_time _ = False"

fun time_ms :: "jsnum \<Rightarrow> int" where
  "time_ms (Num t) = t"
| "time_ms _ = 0"

text \<open>The time of a request is its ISO \<open>timestamp\<close>, which the text order compares as the
  instants are; a request without one has the empty text.\<close>

definition request_time :: "doc_id \<times> request_doc \<Rightarrow> string" where
  "request_time r = (case timestamp (snd r) of None \<Rightarrow> [] | Some t \<Rightarrow> t)"

text \<open>A text that is a decimal numeral: one digit or more and nothing else.\<close>

definition is_decimal :: "string \<Rightarrow> bool" where
  "is_decimal s = (s \<noteq> [] \<and> list_all (\<lambda>c. c \<in> set ''0123456789'') s)"

text \<open>The status changes that a request may go through.\<close>

definition allowed_transitions :: "(string \<times> string) set" where
  "allowed_transitions =
     {(''Pending'', ''Approved''), (''Approved'', ''Shipped''),
      (''Approved'', ''Pending''), (''Shipped'', ''Pending'')}"



text \<open>The state used in the examples: the seed data under the identifiers \<open>inv1\<close> to
  \<open>inv4\<close>, \<open>req1\<close> and \<open>req2\<close>.\<close>

definition clock0 :: jsdate where
  "clock0 = \<lparr>year = 2025, month = 10, day = 9, hours = 8, minutes = 5, seconds = 3, millis = 7\<rparr>"

definition clock1 :: jsdate where
  "clock1 = \<lparr>year = 2025, month = 10, day = 10, hours = 23, minutes = 59, seconds = 58, millis = 120\<rparr>"

definition seeded :: store where
  "seeded =
     \<lparr>inventory_coll = zip [''inv1'', ''inv2'', ''inv3'', ''inv4''] (initialData clock0),
      requests_coll = zip [''req1'', ''req2''] initialRequests\<rparr>"


text \<open>Two requests as the form submits them, the older one listed first.\<close>

definition submitted_requests :: "request_doc coll" where
  "submitted_requests =
     [(''reqA'', \<lparr>organization = ''Shelter A'', req_item = ''Rice'', amount = Num 20,
                  status = ''Pending'', contactEmail = Some ''a@shelter.org'',
                  requestedDate = ''2025-10-09'', processedBy = None,
                  timestamp = Some (toISOString clock0)\<rparr>),
      (''reqB'', \<lparr>organization = ''Shelter B'', req_item = ''Cereal'', amount = Num 5,
                  status = ''Pending'', contactEmail = Some ''b@shelter.org'',
                  requestedDate = ''2025-10-10'', processedBy = None,
                  timestamp = Some (toISOString clock1)\<rparr>)]"

definition shelter_form :: form where
  "shelter_form =
     \<lparr>organizationName = ''Shelter A'', requestedItem = ''Rice'', amount_input = ''20'',
      contactEmail_input = ''a@shelter.org''\<rparr>"

text \<open>Distribution records of two citizens and a manager.\<close>

definition sample_records :: "record_doc coll" where
  "sample_records =
     [(''rec1'', \<lparr>recipientId = ''citizen-ab12'', foodItem = ''Rice (5kg)'', rec_quantity = Num 1,
                  location = ''Central Hub A'', rec_status = ''Pending'', rec_timestamp = Num 1000\<rparr>),
      (''rec2'', \<lparr>recipientId = ''citizen-zz99'', foodItem = ''Beans (1kg)'', rec_quantity = Num 3,
                  location = ''Local Center B'', rec_status = ''Completed'', rec_timestamp = Num 5000\<rparr>),
      (''rec3'', \<lparr>recipientId = ''citizen-ab12'', foodItem = ''Oil (1L)'', rec_quantity = Num 1,
                  location = ''Central Hub A'', rec_status = ''Pending'', rec_timestamp = Num 9000\<rparr>),
      (''rec4'', \<lparr>recipientId = ''manager-77'', foodItem = ''Management Report'', rec_quantity = Num 1,
                  location = ''HQ'', rec_status = ''Completed'', rec_timestamp = Num 7000\<rparr>)]"

text \<open>Three records of which the second has no usable timestamp.\<close>

definition undated_records :: "record_doc coll" where
  "undated_records =
     [(''recA'', \<lparr>recipientId = ''citizen-ab12'', foodItem = ''Rice (5kg)'', rec_quantity = Num 1,
                  location = ''Central Hub A'', rec_status = ''Pending'', rec_timestamp = Num 1000\<rparr>),
      (''recB'', \<lparr>recipientId = ''citizen-ab12'', foodItem = ''Beans (1kg)'', rec_quantity = Num 3,
                  location = ''Local Center B'', rec_status = ''Pending'', rec_timestamp = NaN\<rparr>),
      (''recC'', \<lparr>recipientId = ''citizen-ab12'', foodItem = ''Oil (1L)'', rec_quantity = Num 1,
                  location = ''Central Hub A'', rec_status = ''Pending'', rec_timestamp = Num 2000\<rparr>)]"

text \<open>
  The seeded store after another client has shipped 300 boxes of pasta, and after another
  client has approved and shipped the first request: states of the store that a client
  still holding the snapshot of \<open>seeded\<close> has not been told of.
\<close>

definition drawn_down :: store where
  "drawn_down =
     seeded\<lparr>inventory_coll :=
       merge_doc ''inv3'' (\<lambda>d. d\<lparr>quantity := Num 300\<rparr>) (inventory_coll seeded)\<rparr>"

definition shipped_elsewhere :: store where
  "shipped_elsewhere =
     seeded\<lparr>requests_coll :=
       merge_doc ''req1'' (\<lambda>d. d\<lparr>status := ''Shipped''\<rparr>) (requests_coll seeded)\<rparr>"

text \<open>A store with \<open>2^60\<close> boxes of pasta and an approved request for one.\<close>

definition huge_stock :: store where
  "huge_stock =
     \<lparr>inventory_coll =
        [(''inv3'', \<lparr>item = ''Dry Pasta'', quantity = Num 1152921504606846976,
                    unit_name = ''boxes'', expiration = ''2027-01-20'',
                    lastUpdated = toISOString clock0\<rparr>)],
      requests_coll =
        [(''req2'', \<lparr>organization = ''Food Bank Central'', req_item = ''Dry Pasta'',
                    amount = Num 1, status = ''Approved'', contactEmail = None,
                    requestedDate = ''2025-10-07'', processedBy = None, timestamp = None\<rparr>)]\<rparr>"

section \<open>Facts about numbers\<close>

lemma bit_length_0: "bit_length 0 = 0"
  by (simp add: bit_length.simps)

lemma bit_length_le: "n < 2 ^ k \<Longrightarrow> bit_length n \<le> k"
proof (induction k arbitrary: n)
  case 0
  then show ?case by (simp add: bit_length.simps)
next
  case (Suc k)
  have "n div 2 < 2 ^ k" using Suc.prems by simp
  from Suc.IH [OF this] show ?case by (subst bit_length.simps) simp
qed

lemma bit_length_ge: "2 ^ k \<le> n \<Longrightarrow> k < bit_length n"
proof (induction k arbitrary: n)
  case 0
  then show ?case by (subst bit_length.simps) auto
next
  case (Suc k)
  have "2 ^ k \<le> n div 2" using Suc.prems by simp
  moreover have "n \<noteq> 0" using Suc.prems by (cases "n = 0") simp_all
  ultimately have "k < bit_length (n div 2)" and "n \<noteq> 0"
    using Suc.IH [of "n div 2"] by simp_all
  then have "Suc k < Suc (bit_length (n div 2))" by simp
  also have "Suc (bit_length (n div 2)) = bit_length n"
    using \<open>n \<noteq> 0\<close> by (subst (2) bit_length.simps) simp
  finally show ?case .
qed

lemma bit_length_eq: "2 ^ k \<le> n \<Longrightarrow> n < 2 ^ Suc k \<Longrightarrow> bit_length n = Suc k"
  using bit_length_le [of n "Suc k"] bit_length_ge [of k n] by simp

lemma bit_length_lower: "0 < bit_length n \<Longrightarrow> 2 ^ (bit_length n - 1) \<le> n"
proof (rule ccontr)
  assume pos: "0 < bit_length n" and "\<not> 2 ^ (bit_length n - 1) \<le> n"
  then have "n < 2 ^ (bit_length n - 1)" by simp
  from bit_length_le [OF this] pos show False by simp
qed

text \<open>Integers below \<open>2^53\<close> in magnitude are doubles.\<close>

lemma to_double_exact: "\<bar>n\<bar> < 2 ^ 53 \<Longrightarrow> to_double n = Num n"
proof -
  assume "\<bar>n\<bar> < 2 ^ 53"
  then have "nat \<bar>n\<bar> < 2 ^ 53" by (simp add: nat_less_iff)
  from bit_length_le [OF this] show ?thesis by (simp add: to_double_def)
qed

lemma round_half_even_ge: "m div u \<le> round_half_even m u"
  by (simp add: round_half_even_def Let_def)

lemma rounded_pos:
  assumes "53 < bit_length m"
  shows "0 < round_half_even m (2 ^ (bit_length m - 53)) * 2 ^ (bit_length m - 53)"
proof -
  let ?u = "(2::nat) ^ (bit_length m - 53)"
  have "(2::nat) ^ (bit_length m - 53) \<le> 2 ^ (bit_length m - 1)"
    by (rule power_increasing) (use assms in auto)
  also have "\<dots> \<le> m" using assms by (intro bit_length_lower) simp
  finally have "?u \<le> m" .
  then have "1 \<le> m div ?u" by (simp add: div_greater_zero_iff less_eq_div_iff_mult_less_eq)
  with round_half_even_ge [of m ?u] show ?thesis by simp
qed

lemma to_double_big:
  assumes "53 < bit_length (nat \<bar>n\<bar>)"
  shows "\<exists>v. 0 < v \<and> to_double n =
           (if overflow_bound \<le> v then (if n < 0 then NegInf else PosInf)
            else Num (if n < 0 then - int v else int v))"
proof -
  let ?m = "nat \<bar>n\<bar>"
  let ?v = "round_half_even ?m (2 ^ (bit_length ?m - 53)) * 2 ^ (bit_length ?m - 53)"
  have "0 < ?v" using assms by (rule rounded_pos)
  moreover have "to_double n =
           (if overflow_bound \<le> ?v then (if n < 0 then NegInf else PosInf)
            else Num (if n < 0 then - int ?v else int ?v))"
    using assms by (simp add: to_double_def Let_def)
  ultimately show ?thesis by blast
qed


lemma to_double_nonneg:
  "0 \<le> n \<Longrightarrow> js_ge (to_double n) (Num 0) \<and> \<not> js_lt (to_double n) (Num 0)"
proof (cases "53 < bit_length (nat \<bar>n\<bar>)")
  case True
  assume "0 \<le> n"
  with to_double_big [OF True] show ?thesis by (auto split: if_splits)
next
  case False
  assume "0 \<le> n"
  with False show ?thesis by (simp add: to_double_def)
qed

lemma to_double_pos: "0 < n \<Longrightarrow> js_lt (Num 0) (to_double n)"
proof (cases "53 < bit_length (nat \<bar>n\<bar>)")
  case True
  assume "0 < n"
  with to_double_big [OF True] show ?thesis by (auto split: if_splits)
next
  case False
  assume "0 < n"
  with False show ?thesis by (simp add: to_double_def)
qed

lemma to_double_nonpos: "n \<le> 0 \<Longrightarrow> \<not> js_lt (Num 0) (to_double n)"
proof (cases "53 < bit_length (nat \<bar>n\<bar>)")
  case True
  assume "n \<le> 0"
  moreover have "n \<noteq> 0" using True by (auto simp: bit_length_0)
  ultimately show ?thesis using to_double_big [OF True] by (auto split: if_splits)
next
  case False
  assume "n \<le> 0"
  with False show ?thesis by (simp add: to_double_def)
qed

lemma below_overflow: "v \<le> 2 ^ 64 \<Longrightarrow> \<not> overflow_bound \<le> v"
proof -
  assume "v \<le> 2 ^ 64"
  moreover have "(2::nat) ^ 64 < 2 ^ 1024" by (rule power_strict_increasing) simp_all
  ultimately show ?thesis by (simp add: overflow_bound_def)
qed

text \<open>Three roundings: \<open>2^60 + 10\<close>, \<open>2^60 - 1\<close> and \<open>2^53 + 1\<close>.\<close>

lemma to_double_2_60_plus_10: "to_double 1152921504606846986 = Num 1152921504606846976"
proof -
  have "bit_length (nat \<bar>1152921504606846986 :: int\<bar>) = Suc 60"
    by (rule bit_length_eq) simp_all
  then show ?thesis by (simp add: to_double_def round_half_even_def Let_def below_overflow)
qed

lemma to_double_2_60_minus_1: "to_double 1152921504606846975 = Num 1152921504606846976"
proof -
  have "bit_length (nat \<bar>1152921504606846975 :: int\<bar>) = Suc 59"
    by (rule bit_length_eq) simp_all
  then show ?thesis by (simp add: to_double_def round_half_even_def Let_def below_overflow)
qed

lemma to_double_2_53_plus_1: "to_double 9007199254740993 = Num 9007199254740992"
proof -
  have "bit_length (nat \<bar>9007199254740993 :: int\<bar>) = Suc 53"
    by (rule bit_length_eq) simp_all
  then show ?thesis by (simp add: to_double_def round_half_even_def Let_def below_overflow)
qed



lemma js_ge_sub_not_neg: "js_ge x y \<Longrightarrow> \<not> js_lt (js_sub x y) (Num 0)"
  by (cases x; cases y) (simp_all add: to_double_nonneg)


section \<open>Facts about the store\<close>

lemma map_of_merge_doc:
  "map_of (merge_doc i f c) j = (if j = i then map_option f (map_of c i) else map_of c j)"
  by (induction c) (auto simp: merge_doc_def)

lemma map_fst_merge_doc: "map fst (merge_doc i f c) = map fst c"
  by (induction c) (auto simp: merge_doc_def)

lemma exists_doc_map_of: "map_of c i = Some d \<Longrightarrow> exists_doc c i"
  by (auto simp: exists_doc_def dest: map_of_SomeD intro: rev_image_eqI)

lemma inventory_onSnapshot_id: "inventory_onSnapshot docs = docs"
  by (simp add: inventory_onSnapshot_def)

lemma requests_onSnapshot_id: "requests_onSnapshot docs = docs"
  by (simp add: requests_onSnapshot_def)


section \<open>Shipping\<close>

text \<open>
  C1, as the code has it. A Ship on a request whose item the client's copy of the inventory
  holds in sufficient quantity puts the two updates into one batch. If the request or the
  item is missing from the store the batch is refused and nothing is written; otherwise both
  are written: the request's status is \<open>Shipped\<close> and the item's quantity is the quantity of
  the client's copy minus the requested amount, which is the quantity before minus the
  amount when the copy is current. The subtraction is that of doubles, exact when the
  difference is below \<open>2^53\<close> in magnitude.
\<close>

theorem ship_success:
  assumes ready: "db p" "isAuthReady p"
    and found: "find (\<lambda>i. item (snd i) = requestItem) (inventory p) = Some (iid, it)"
    and enough: "js_ge (quantity it) requestAmount"
  shows "handleStatusUpdate p now1 now2 s rid requestItem requestAmount ''Shipped'' =
      (if exists_doc (requests_coll s) rid \<and> exists_doc (inventory_coll s) iid
       then (Written,
             \<lparr>inventory_coll =
                merge_doc iid (\<lambda>d. d\<lparr>quantity := js_sub (quantity it) requestAmount,
                                     lastUpdated := toISOString now2\<rparr>) (inventory_coll s),
              requests_coll =
                merge_doc rid (\<lambda>d. d\<lparr>status := ''Shipped'',
                                     processedBy := Some (Stamp (toISOString now1))\<rparr>)
                  (requests_coll s)\<rparr>)
       else (WriteError, s))
    \<and> (\<forall>r d. map_of (requests_coll s) rid = Some r \<longrightarrow> map_of (inventory_coll s) iid = Some d \<longrightarrow>
          (\<exists>s'. handleStatusUpdate p now1 now2 s rid requestItem requestAmount ''Shipped''
                   = (Written, s')
             \<and> map_of (requests_coll s') rid =
                 Some (r\<lparr>status := ''Shipped'', processedBy := Some (Stamp (toISOString now1))\<rparr>)
             \<and> map_of (inventory_coll s') iid =
                 Some (d\<lparr>quantity := js_sub (quantity it) requestAmount,
                         lastUpdated := toISOString now2\<rparr>)))
    \<and> (\<forall>q a. quantity it = Num q \<longrightarrow> requestAmount = Num a \<longrightarrow> \<bar>q - a\<bar> < 2 ^ 53 \<longrightarrow>
          js_sub (quantity it) requestAmount = Num (q - a))"
proof -
  let ?h = "handleStatusUpdate p now1 now2 s rid requestItem requestAmount ''Shipped''"
  let ?s' = "\<lparr>inventory_coll =
                merge_doc iid (\<lambda>d. d\<lparr>quantity := js_sub (quantity it) requestAmount,
                                     lastUpdated := toISOString now2\<rparr>) (inventory_coll s),
              requests_coll =
                merge_doc rid (\<lambda>d. d\<lparr>status := ''Shipped'',
                                     processedBy := Some (Stamp (toISOString now1))\<rparr>)
                  (requests_coll s)\<rparr>"
  have nn: "\<not> js_lt (js_sub (quantity it) requestAmount) (Num 0)"
    using enough by (rule js_ge_sub_not_neg)
  have 1: "?h = (if exists_doc (requests_coll s) rid \<and> exists_doc (inventory_coll s) iid
       then (Written, ?s') else (WriteError, s))"
    using ready found nn by (simp add: handleStatusUpdate_def commit_def Let_def)
  have 2: "\<exists>s'. ?h = (Written, s')
             \<and> map_of (requests_coll s') rid =
                 Some (r\<lparr>status := ''Shipped'', processedBy := Some (Stamp (toISOString now1))\<rparr>)
             \<and> map_of (inventory_coll s') iid =
                 Some (d\<lparr>quantity := js_sub (quantity it) requestAmount,
                         lastUpdated := toISOString now2\<rparr>)"
    if "map_of (requests_coll s) rid = Some r" "map_of (inventory_coll s) iid = Some d" for r d
    using that 1 by (simp add: exists_doc_map_of map_of_merge_doc)
  have 3: "js_sub (quantity it) requestAmount = Num (q - a)"
    if "quantity it = Num q" "requestAmount = Num a" "\<bar>q - a\<bar> < 2 ^ 53" for q a
    using that by (simp add: to_double_exact)
  from 1 2 3 show ?thesis by blast
qed

text \<open>The scenario of the seed data: 600 boxes of pasta, an approved request for 100.\<close>

theorem ship_success_witness:
  "\<exists>s'. handleStatusUpdate (synced_props True True seeded) clock1 clock1 seeded
          ''req2'' ''Dry Pasta'' (Num 100) ''Shipped'' = (Written, s')
      \<and> map_option quantity (map_of (inventory_coll s') ''inv3'') = Some (Num 500)
      \<and> map_option status (map_of (requests_coll s') ''req2'') = Some ''Shipped''"
proof -
  let ?it = "initialData clock0 ! 2" and ?r = "initialRequests ! 1"
  have h1: "db (synced_props True True seeded)" and h2: "isAuthReady (synced_props True True seeded)"
    by (simp_all add: synced_props_def)
  have h3: "find (\<lambda>i. item (snd i) = ''Dry Pasta'') (inventory (synced_props True True seeded))
      = Some (''inv3'', ?it)"
    by (simp add: synced_props_def inventory_onSnapshot_def seeded_def initialData_def)
  have h4: "js_ge (quantity ?it) (Num 100)" by (simp add: initialData_def)
  have h5: "map_of (requests_coll seeded) ''req2'' = Some ?r"
    by (simp add: seeded_def initialRequests_def)
  have h6: "map_of (inventory_coll seeded) ''inv3'' = Some ?it"
    by (simp add: seeded_def initialData_def)
  have q: "quantity ?it = Num 600" by (simp add: initialData_def)
  have e: "js_sub (quantity ?it) (Num 100) = Num 500"
    using q by (simp add: to_double_exact)
  from ship_success [OF h1 h2 h3 h4, of clock1 clock1 seeded "''req2''"] h5 h6
  obtain s' where "handleStatusUpdate (synced_props True True seeded) clock1 clock1 seeded
          ''req2'' ''Dry Pasta'' (Num 100) ''Shipped'' = (Written, s')"
    "map_of (requests_coll s') ''req2'' =
        Some (?r\<lparr>status := ''Shipped'', processedBy := Some (Stamp (toISOString clock1))\<rparr>)"
    "map_of (inventory_coll s') ''inv3'' =
        Some (?it\<lparr>quantity := js_sub (quantity ?it) (Num 100), lastUpdated := toISOString clock1\<rparr>)"
    by blast
  then show ?thesis using e by simp
qed

text \<open>
  C1 as it is written fails. A client that still holds the snapshot with 600 boxes ships 100
  when the store is down to 300: the store then holds 500, not 200. And with \<open>2^60\<close> boxes
  the shipping of one box leaves \<open>2^60\<close>.
\<close>

theorem ship_stale_copy_counterexample:
  "map_option quantity (map_of (inventory_coll drawn_down) ''inv3'') = Some (Num 300)
   \<and> map_option quantity (map_of (inventory_coll
        (snd (handleStatusUpdate (synced_props True True seeded) clock1 clock1 drawn_down
               ''req2'' ''Dry Pasta'' (Num 100) ''Shipped''))) ''inv3'') = Some (Num 500)
   \<and> map_option quantity (map_of (inventory_coll huge_stock) ''inv3'')
        = Some (Num 1152921504606846976)
   \<and> map_option quantity (map_of (inventory_coll
        (snd (handleStatusUpdate (synced_props True True huge_stock) clock1 clock1 huge_stock
               ''req2'' ''Dry Pasta'' (Num 1) ''Shipped''))) ''inv3'')
        = Some (Num 1152921504606846976)"
proof -
  have a: "map_option quantity (map_of (inventory_coll drawn_down) ''inv3'') = Some (Num 300)"
    by (simp add: drawn_down_def seeded_def initialData_def merge_doc_def)
  have e1: "to_double 500 = Num 500" by (simp add: to_double_exact)
  have b: "map_option quantity (map_of (inventory_coll
        (snd (handleStatusUpdate (synced_props True True seeded) clock1 clock1 drawn_down
               ''req2'' ''Dry Pasta'' (Num 100) ''Shipped''))) ''inv3'') = Some (Num 500)"
    by (simp add: handleStatusUpdate_def synced_props_def inventory_onSnapshot_def
        drawn_down_def seeded_def initialData_def initialRequests_def commit_def exists_doc_def
        merge_doc_def e1)
  have c: "map_option quantity (map_of (inventory_coll huge_stock) ''inv3'')
        = Some (Num 1152921504606846976)"
    by (simp add: huge_stock_def)
  have d: "map_option quantity (map_of (inventory_coll
        (snd (handleStatusUpdate (synced_props True True huge_stock) clock1 clock1 huge_stock
               ''req2'' ''Dry Pasta'' (Num 1) ''Shipped''))) ''inv3'')
        = Some (Num 1152921504606846976)"
    by (simp add: handleStatusUpdate_def synced_props_def inventory_onSnapshot_def
        huge_stock_def commit_def exists_doc_def merge_doc_def to_double_2_60_minus_1)
  from a b c d show ?thesis by blast
qed





section \<open>Status transitions\<close>

text \<open>What a status update does to the requests collection: nothing, or the merge of the new
  status into the request.\<close>

lemma handleStatusUpdate_requests:
  "requests_coll (snd (handleStatusUpdate p now1 now2 s rid ritem ramount newStatus)) = requests_coll s
   \<or> requests_coll (snd (handleStatusUpdate p now1 now2 s rid ritem ramount newStatus)) =
       merge_doc rid (\<lambda>d. d\<lparr>status := newStatus,
           processedBy := Some (if newStatus \<noteq> ''Pending'' then Stamp (toISOString now1) else Null)\<rparr>)
         (requests_coll s)"
  by (simp add: handleStatusUpdate_def Let_def commit_def split: option.splits)

lemma click_requests:
  "requests_coll (click p now1 now2 s request b) = requests_coll s
   \<or> ((status (snd request), button_status b) \<in> allowed_transitions
      \<and> request \<in> set (requests p)
      \<and> requests_coll (click p now1 now2 s request b) =
          merge_doc (fst request)
            (\<lambda>d. d\<lparr>status := button_status b,
                    processedBy := Some (if button_status b \<noteq> ''Pending''
                                         then Stamp (toISOString now1) else Null)\<rparr>)
            (requests_coll s))"
proof (cases "request \<in> set (requests p) \<and> button_shown request b \<and> \<not> button_disabled p request b")
  case False
  then have "click p now1 now2 s request b = s" by (auto simp: click_def)
  then show ?thesis by simp
next
  case True
  then have c: "click p now1 now2 s request b =
      snd (handleStatusUpdate p now1 now2 s (fst request) (req_item (snd request))
             (amount (snd request)) (button_status b))"
    by (auto simp: click_def)
  have a: "(status (snd request), button_status b) \<in> allowed_transitions"
    using True by (cases b) (auto simp: allowed_transitions_def)
  show ?thesis
    unfolding c
    using handleStatusUpdate_requests [of p now1 now2 s "fst request" "req_item (snd request)"
        "amount (snd request)" "button_status b"] a True
    by blast
qed

text \<open>
  C3, as the code has it. The dashboard renders the client's copy of the requests. Whatever
  button of whatever request is clicked, the requests of the store are what they were, or
  the clicked request, and no other, is given a status that follows the status displayed for
  it along one of the four transitions. Hence, when the displayed copy is the current state
  of the store, a request whose stored status is different afterwards has gone through one
  of the four transitions.
\<close>

theorem status_transitions:
  "(requests_coll (click p now1 now2 s request b) = requests_coll s
    \<or> ((status (snd request), button_status b) \<in> allowed_transitions
       \<and> request \<in> set (requests p)
       \<and> requests_coll (click p now1 now2 s request b) =
           merge_doc (fst request)
             (\<lambda>d. d\<lparr>status := button_status b,
                     processedBy := Some (if button_status b \<noteq> ''Pending''
                                          then Stamp (toISOString now1) else Null)\<rparr>)
             (requests_coll s)))
   \<and> (requests p = requests_onSnapshot (requests_coll s) \<longrightarrow>
       distinct (map fst (requests_coll s)) \<longrightarrow>
       (\<forall>i r r'. map_of (requests_coll s) i = Some r \<longrightarrow>
                 map_of (requests_coll (click p now1 now2 s request b)) i = Some r' \<longrightarrow>
                 status r' \<noteq> status r \<longrightarrow>
                 (status r, status r') \<in> allowed_transitions))"
proof -
  let ?s' = "click p now1 now2 s request b"
  let ?f = "\<lambda>d. d\<lparr>status := button_status b,
           processedBy := Some (if button_status b \<noteq> ''Pending'' then Stamp (toISOString now1) else Null)\<rparr>"
  note 1 = click_requests [of p now1 now2 s request b]
  have 2: "(status r, status r') \<in> allowed_transitions"
    if sync: "requests p = requests_onSnapshot (requests_coll s)"
      and dist: "distinct (map fst (requests_coll s))"
      and before: "map_of (requests_coll s) i = Some r"
      and after: "map_of (requests_coll ?s') i = Some r'"
      and changed: "status r' \<noteq> status r"
    for i r r'
  proof -
    have "requests_coll ?s' \<noteq> requests_coll s"
      using before after changed by auto
    with 1 have a: "(status (snd request), button_status b) \<in> allowed_transitions"
      and mem: "request \<in> set (requests_coll s)"
      and m: "requests_coll ?s' = merge_doc (fst request) ?f (requests_coll s)"
      using sync by (auto simp: requests_onSnapshot_id)
    have i: "i = fst request"
      using before after changed unfolding m by (auto simp: map_of_merge_doc split: if_splits)
    have "map_of (requests_coll s) (fst request) = Some (snd request)"
      using dist mem by (cases request) simp
    then have r: "r = snd request" using before i by simp
    have r': "status r' = button_status b"
      using after before i unfolding m by (auto simp: map_of_merge_doc)
    show ?thesis using a r r' by simp
  qed
  from 1 2 show ?thesis by blast
qed

text \<open>Approving the pending request of the seed data.\<close>

theorem status_transitions_witness:
  "(''Pending'', ''Approved'') \<in> allowed_transitions
   \<and> map_option status (map_of (requests_coll seeded) ''req1'') = Some ''Pending''
   \<and> map_option status (map_of (requests_coll (click (synced_props True True seeded) clock1 clock1
        seeded (''req1'', initialRequests ! 0) Approve)) ''req1'') = Some ''Approved''"
proof -
  let ?p = "synced_props True True seeded" and ?r = "initialRequests ! 0"
  let ?s' = "click ?p clock1 clock1 seeded (''req1'', ?r) Approve"
  let ?r' = "?r\<lparr>status := ''Approved'', processedBy := Some (Stamp (toISOString clock1))\<rparr>"
  have h1: "requests ?p = requests_onSnapshot (requests_coll seeded)"
    by (simp add: synced_props_def)
  have h2: "distinct (map fst (requests_coll seeded))"
    by (simp add: seeded_def initialRequests_def)
  have h3: "map_of (requests_coll seeded) ''req1'' = Some ?r"
    by (simp add: seeded_def initialRequests_def)
  have h4: "map_of (requests_coll ?s') ''req1'' = Some ?r'"
    by (simp add: click_def synced_props_def requests_onSnapshot_def inventory_onSnapshot_def
        seeded_def initialRequests_def handleStatusUpdate_def commit_def exists_doc_def
        merge_doc_def)
  have h5: "status ?r' \<noteq> status ?r"
    by (simp add: initialRequests_def)
  from status_transitions [of ?p clock1 clock1 seeded "(''req1'', ?r)" Approve] h1 h2 h3 h4 h5
  have "(status ?r, status ?r') \<in> allowed_transitions" by blast
  then show ?thesis using h3 h4 by (simp add: initialRequests_def)
qed

text \<open>
  C3 as it is written fails. A client that still displays the first request as \<open>Pending\<close>
  clicks Approve when the store has it as \<open>Shipped\<close>: the stored status goes from \<open>Shipped\<close>
  to \<open>Approved\<close>, which is none of the four transitions.
\<close>

theorem status_stale_copy_counterexample:
  "map_option status (map_of (requests_coll shipped_elsewhere) ''req1'') = Some ''Shipped''
   \<and> map_option status (map_of (requests_coll
        (click (synced_props True True seeded) clock1 clock1 shipped_elsewhere
           (''req1'', initialRequests ! 0) Approve)) ''req1'') = Some ''Approved''
   \<and> (''Shipped'', ''Approved'') \<notin> allowed_transitions"
  by (simp add: click_def synced_props_def requests_onSnapshot_def inventory_onSnapshot_def
      shipped_elsewhere_def seeded_def initialRequests_def handleStatusUpdate_def commit_def
      exists_doc_def merge_doc_def allowed_transitions_def)

section \<open>Restock\<close>

text \<open>
  C7, as the code has it. A restock of an item of the client's copy updates the stored item
  with that identifier, if there is one, and nothing else: the item's quantity becomes the
  quantity of the client's copy plus 10 and its \<open>lastUpdated\<close> the time of the click; its
  other fields, every other item, the list of identifiers (no document is created or
  deleted) and the requests are what they were. The addition is that of doubles: exactly 10
  more when the sum is below \<open>2^53\<close> in magnitude.
\<close>

theorem restock_effect:
  assumes ready: "db p" "isAuthReady p"
    and found: "find (\<lambda>i. fst i = itemId) (inventory p) = Some item0"
  shows "handleUpdateStock p now s itemId =
      (if exists_doc (inventory_coll s) itemId
       then (Written,
             s\<lparr>inventory_coll :=
                 merge_doc itemId (\<lambda>d. d\<lparr>quantity := js_add (quantity (snd item0)) (Num 10),
                                          lastUpdated := toISOString now\<rparr>) (inventory_coll s)\<rparr>)
       else (WriteError, s))
    \<and> requests_coll (snd (handleUpdateStock p now s itemId)) = requests_coll s
    \<and> map fst (inventory_coll (snd (handleUpdateStock p now s itemId))) = map fst (inventory_coll s)
    \<and> (\<forall>j. j \<noteq> itemId \<longrightarrow>
          map_of (inventory_coll (snd (handleUpdateStock p now s itemId))) j
            = map_of (inventory_coll s) j)
    \<and> (\<forall>d. map_of (inventory_coll s) itemId = Some d \<longrightarrow>
          map_of (inventory_coll (snd (handleUpdateStock p now s itemId))) itemId =
            Some (d\<lparr>quantity := js_add (quantity (snd item0)) (Num 10),
                    lastUpdated := toISOString now\<rparr>))
    \<and> (\<forall>q. quantity (snd item0) = Num q \<longrightarrow> \<bar>q + 10\<bar> < 2 ^ 53 \<longrightarrow>
          js_add (quantity (snd item0)) (Num 10) = Num (q + 10))"
proof -
  let ?f = "\<lambda>d. d\<lparr>quantity := js_add (quantity (snd item0)) (Num 10), lastUpdated := toISOString now\<rparr>"
  let ?h = "handleUpdateStock p now s itemId"
  have 1: "?h = (if exists_doc (inventory_coll s) itemId
       then (Written, s\<lparr>inventory_coll := merge_doc itemId ?f (inventory_coll s)\<rparr>)
       else (WriteError, s))"
    using ready found by (simp add: handleUpdateStock_def updateDoc_def Let_def)
  have 2: "requests_coll (snd ?h) = requests_coll s"
    unfolding 1 by simp
  have 3: "map fst (inventory_coll (snd ?h)) = map fst (inventory_coll s)"
    unfolding 1 by (simp add: map_fst_merge_doc)
  have 4: "\<forall>j. j \<noteq> itemId \<longrightarrow> map_of (inventory_coll (snd ?h)) j = map_of (inventory_coll s) j"
    unfolding 1 by (simp add: map_of_merge_doc)
  have 5: "\<forall>d. map_of (inventory_coll s) itemId = Some d \<longrightarrow>
          map_of (inventory_coll (snd ?h)) itemId = Some (?f d)"
    unfolding 1 by (simp add: map_of_merge_doc exists_doc_map_of)
  have 6: "\<forall>q. quantity (snd item0) = Num q \<longrightarrow> \<bar>q + 10\<bar> < 2 ^ 53 \<longrightarrow>
          js_add (quantity (snd item0)) (Num 10) = Num (q + 10)"
    by (simp add: to_double_exact)
  from 1 2 3 4 5 6 show ?thesis by blast
qed

theorem restock_effect_witness:
  "fst (handleUpdateStock (synced_props True True seeded) clock1 seeded ''inv3'') = Written
   \<and> requests_coll (snd (handleUpdateStock (synced_props True True seeded) clock1 seeded ''inv3''))
       = requests_coll seeded
   \<and> map fst (inventory_coll
        (snd (handleUpdateStock (synced_props True True seeded) clock1 seeded ''inv3'')))
       = [''inv1'', ''inv2'', ''inv3'', ''inv4'']
   \<and> map_option quantity (map_of (inventory_coll
        (snd (handleUpdateStock (synced_props True True seeded) clock1 seeded ''inv3''))) ''inv3'')
       = Some (Num 610)
   \<and> map_option lastUpdated (map_of (inventory_coll
        (snd (handleUpdateStock (synced_props True True seeded) clock1 seeded ''inv3''))) ''inv3'')
       = Some (toISOString clock1)"
proof -
  let ?p = "synced_props True True seeded" and ?it = "(''inv3'', initialData clock0 ! 2)"
  have h1: "db ?p" and h2: "isAuthReady ?p" by (simp_all add: synced_props_def)
  have h3: "find (\<lambda>i. fst i = ''inv3'') (inventory ?p) = Some ?it"
    by (simp add: synced_props_def inventory_onSnapshot_def seeded_def initialData_def)
  have h4: "map_of (inventory_coll seeded) ''inv3'' = Some (snd ?it)"
    by (simp add: seeded_def initialData_def)
  have ex: "exists_doc (inventory_coll seeded) ''inv3''"
    using h4 by (rule exists_doc_map_of)
  have q: "quantity (snd ?it) = Num 600" by (simp add: initialData_def)
  have e: "js_add (quantity (snd ?it)) (Num 10) = Num 610"
    using q by (simp add: to_double_exact)
  have ids: "map fst (inventory_coll seeded) = [''inv1'', ''inv2'', ''inv3'', ''inv4'']"
    by (simp add: seeded_def initialData_def)
  let ?h = "handleUpdateStock ?p clock1 seeded ''inv3''"
  note t = restock_effect [OF h1 h2 h3, of clock1 seeded]
  have 1: "fst ?h = Written" by (subst t [THEN conjunct1]) (simp add: ex)
  from t have 2: "requests_coll (snd ?h) = requests_coll seeded" by blast
  from t have "map fst (inventory_coll (snd ?h)) = map fst (inventory_coll seeded)" by blast
  then have 3: "map fst (inventory_coll (snd ?h)) = [''inv1'', ''inv2'', ''inv3'', ''inv4'']"
    by (simp only: ids)
  from t h4 have "map_of (inventory_coll (snd ?h)) ''inv3'' =
      Some ((snd ?it)\<lparr>quantity := js_add (quantity (snd ?it)) (Num 10),
                        lastUpdated := toISOString clock1\<rparr>)"
    by blast
  then have 4: "map_option quantity (map_of (inventory_coll (snd ?h)) ''inv3'') = Some (Num 610)"
    and 5: "map_option lastUpdated (map_of (inventory_coll (snd ?h)) ''inv3'') = Some (toISOString clock1)"
    using e by simp_all
  from 1 2 3 4 5 show ?thesis by blast
qed

text \<open>
  C7 as it is written fails. The restock of the pasta of the seed data also replaces the
  item's \<open>lastUpdated\<close>. A client that still holds the snapshot with 600 boxes restocks when
  the store is down to 300: the store then holds 610, not 310. And a restock of \<open>2^60\<close> boxes
  leaves \<open>2^60\<close>.
\<close>

theorem restock_lastUpdated_counterexample:
  "map_option lastUpdated (map_of (inventory_coll seeded) ''inv3'') = Some ''2025-10-09T08:05:03.007Z''
   \<and> map_option lastUpdated (map_of (inventory_coll
        (snd (handleUpdateStock (synced_props True True seeded) clock1 seeded ''inv3''))) ''inv3'')
      = Some ''2025-10-10T23:59:58.120Z''
   \<and> map_option quantity (map_of (inventory_coll drawn_down) ''inv3'') = Some (Num 300)
   \<and> map_option quantity (map_of (inventory_coll
        (snd (handleUpdateStock (synced_props True True seeded) clock1 drawn_down ''inv3''))) ''inv3'')
      = Some (Num 610)
   \<and> map_option quantity (map_of (inventory_coll huge_stock) ''inv3'')
      = Some (Num 1152921504606846976)
   \<and> map_option quantity (map_of (inventory_coll
        (snd (handleUpdateStock (synced_props True True huge_stock) clock1 huge_stock ''inv3''))) ''inv3'')
      = Some (Num 1152921504606846976)"
proof -
  have t0: "toISOString clock0 = ''2025-10-09T08:05:03.007Z''" by code_simp
  have t1: "toISOString clock1 = ''2025-10-10T23:59:58.120Z''" by code_simp
  have e: "to_double 610 = Num 610" by (simp add: to_double_exact)
  have r: "handleUpdateStock (synced_props True True seeded) clock1 seeded ''inv3'' =
     (Written, seeded\<lparr>inventory_coll := merge_doc ''inv3''
        (\<lambda>d. d\<lparr>quantity := Num 610, lastUpdated := toISOString clock1\<rparr>) (inventory_coll seeded)\<rparr>)"
    by (simp add: handleUpdateStock_def synced_props_def inventory_onSnapshot_def seeded_def
        initialData_def updateDoc_def exists_doc_def e)
  have b: "map_of (inventory_coll seeded) ''inv3'' = Some (initialData clock0 ! 2)"
    by (simp add: seeded_def initialData_def)
  have 1: "map_option lastUpdated (map_of (inventory_coll seeded) ''inv3'') = Some ''2025-10-09T08:05:03.007Z''"
    by (simp add: b initialData_def t0)
  have 2: "map_option lastUpdated (map_of (inventory_coll
        (snd (handleUpdateStock (synced_props True True seeded) clock1 seeded ''inv3''))) ''inv3'')
      = Some ''2025-10-10T23:59:58.120Z''"
    unfolding r by (simp add: map_of_merge_doc b t1)
  have 3: "map_option quantity (map_of (inventory_coll drawn_down) ''inv3'') = Some (Num 300)"
    by (simp add: drawn_down_def seeded_def initialData_def merge_doc_def)
  have 4: "map_option quantity (map_of (inventory_coll
        (snd (handleUpdateStock (synced_props True True seeded) clock1 drawn_down ''inv3''))) ''inv3'')
      = Some (Num 610)"
    by (simp add: handleUpdateStock_def synced_props_def inventory_onSnapshot_def drawn_down_def
        seeded_def initialData_def updateDoc_def exists_doc_def merge_doc_def e)
  have 5: "map_option quantity (map_of (inventory_coll huge_stock) ''inv3'')
      = Some (Num 1152921504606846976)"
    by (simp add: huge_stock_def)
  have 6: "map_option quantity (map_of (inventory_coll
        (snd (handleUpdateStock (synced_props True True huge_stock) clock1 huge_stock ''inv3''))) ''inv3'')
      = Some (Num 1152921504606846976)"
    by (simp add: handleUpdateStock_def synced_props_def inventory_onSnapshot_def huge_stock_def
        updateDoc_def exists_doc_def merge_doc_def to_double_2_60_plus_10)
  from 1 2 3 4 5 6 show ?thesis by blast
qed

section \<open>Stock is never negative\<close>









text \<open>A difference of two doubles can be the infinity: the largest double minus its negative.\<close>

lemma max_double_difference:
  "js_sub (Num (2 ^ 1024 - 2 ^ 971)) (Num (- (2 ^ 1024 - 2 ^ 971))) = PosInf"
proof -
  let ?n = "2 ^ 1025 - 2 ^ 972 :: nat"
  have p: "(2::nat) ^ 1025 = 2 ^ 53 * 2 ^ 972" by (simp flip: power_add)
  have n: "?n = (2 ^ 53 - 1) * 2 ^ 972" unfolding p by (simp add: algebra_simps)
  have lo: "2 ^ 1024 \<le> ?n"
  proof -
    have "(2::nat) ^ 1024 = 2 ^ 52 * 2 ^ 972" by (simp flip: power_add)
    also have "\<dots> \<le> (2 ^ 53 - 1) * 2 ^ 972" by (rule mult_right_mono) simp_all
    finally show ?thesis using n by simp
  qed
  have hi: "?n < 2 ^ Suc 1024" by simp
  have bl: "bit_length ?n = Suc 1024" using lo hi by (rule bit_length_eq)
  have r: "round_half_even ?n (2 ^ 972) = 2 ^ 53 - 1"
    unfolding n by (simp add: round_half_even_def Let_def)
  have i: "(2 ^ 1024 - 2 ^ 971) - (- (2 ^ 1024 - 2 ^ 971)) = int ?n"
    by (simp add: of_nat_diff)
  have "to_double (int ?n) = PosInf"
    using bl r lo n by (simp add: to_double_def Let_def overflow_bound_def del: of_nat_diff of_nat_power)
  then show ?thesis by (simp only: js_sub.simps i)
qed



section \<open>The feeds\<close>

lemma mset_insert_cmp: "mset (insert_cmp cmp x ys) = add_mset x (mset ys)"
  by (induction ys) auto

lemma mset_sort_cmp: "mset (sort_cmp cmp xs) = mset xs"
  by (induction xs) (auto simp: mset_insert_cmp)

lemma set_insert_cmp: "set (insert_cmp cmp x ys) = insert x (set ys)"
  by (induction ys) auto

lemma set_sort_cmp: "set (sort_cmp cmp xs) = set xs"
  by (induction xs) (auto simp: set_insert_cmp)

lemma js_pos_sub: "js_lt (Num 0) (to_double (b - a)) = (a < b)"
  using to_double_pos [of "b - a"] to_double_nonpos [of "b - a"] by (cases "a < b") simp_all

lemma valid_time_Num: "valid_time x \<Longrightarrow> x = Num (time_ms x)"
  by (cases x) simp_all

lemma newest_first_insert_cmp:
  assumes "newest_first (\<lambda>d. time_ms (ts d)) ys"
    and "valid_time (ts x)" and "\<forall>y \<in> set ys. valid_time (ts y)"
  shows "newest_first (\<lambda>d. time_ms (ts d)) (insert_cmp (\<lambda>a b. js_sub (ts b) (ts a)) x ys)"
  using assms
proof (induction ys)
  case Nil
  then show ?case by (simp add: newest_first_def)
next
  case (Cons y ys)
  from Cons.prems obtain tx ty where t: "ts x = Num tx" "ts y = Num ty"
    using valid_time_Num by (metis list.set_intros(1))
  have ih: "newest_first (\<lambda>d. time_ms (ts d)) (insert_cmp (\<lambda>a b. js_sub (ts b) (ts a)) x ys)"
    using Cons by (simp add: newest_first_def)
  show ?case
    using Cons.prems(1) ih t
    by (auto simp: newest_first_def set_insert_cmp js_pos_sub)
qed

lemma newest_first_sort_cmp:
  assumes "\<forall>x \<in> set xs. valid_time (ts x)"
  shows "newest_first (\<lambda>d. time_ms (ts d)) (sort_cmp (\<lambda>a b. js_sub (ts b) (ts a)) xs)"
  using assms
proof (induction xs)
  case Nil
  show ?case by (simp add: newest_first_def)
next
  case (Cons x xs)
  then show ?case by (simp add: newest_first_insert_cmp set_sort_cmp)
qed

lemma records_onSnapshot_mset: "mset (records_onSnapshot docs) = mset docs"
  by (simp add: records_onSnapshot_def mset_sort_cmp)

lemma records_onSnapshot_newest_first:
  assumes "list_all (\<lambda>doc. valid_time (rec_timestamp (snd doc))) docs"
  shows "newest_first (\<lambda>doc. time_ms (rec_timestamp (snd doc))) (records_onSnapshot docs)"
proof -
  have "\<forall>x \<in> set docs. valid_time (rec_timestamp (snd x))"
    using assms by (simp add: list_all_iff)
  from newest_first_sort_cmp [where ts = "\<lambda>doc. rec_timestamp (snd doc)", OF this]
  show ?thesis by (simp add: records_onSnapshot_def)
qed

text \<open>
  C6, as the code has it. On every snapshot the feed of the distribution records hands over
  the delivered documents, each once; when each of them has a valid time, they are handed
  over newest first. The two feeds of the dashboard hand over the delivered documents in the
  delivered order.
\<close>

theorem feeds_order:
  "(list_all (\<lambda>doc. valid_time (rec_timestamp (snd doc))) docs \<longrightarrow>
      newest_first (\<lambda>doc. time_ms (rec_timestamp (snd doc))) (records_onSnapshot docs))
   \<and> mset (records_onSnapshot docs) = mset docs
   \<and> inventory_onSnapshot docs1 = docs1
   \<and> requests_onSnapshot docs2 = docs2"
  using records_onSnapshot_newest_first [of docs]
  by (simp add: records_onSnapshot_mset inventory_onSnapshot_id requests_onSnapshot_id)

theorem feeds_order_witness:
  "list_all (\<lambda>doc. valid_time (rec_timestamp (snd doc))) sample_records
   \<and> map fst (records_onSnapshot sample_records) = [''rec3'', ''rec4'', ''rec2'', ''rec1'']
   \<and> newest_first (\<lambda>doc. time_ms (rec_timestamp (snd doc))) (records_onSnapshot sample_records)
   \<and> requests_onSnapshot submitted_requests = submitted_requests"
proof -
  have v: "list_all (\<lambda>doc. valid_time (rec_timestamp (snd doc))) sample_records"
    by (simp add: sample_records_def)
  have "map fst (records_onSnapshot sample_records) = [''rec3'', ''rec4'', ''rec2'', ''rec1'']"
    by (simp add: records_onSnapshot_def sample_records_def to_double_exact)
  with v feeds_order [of sample_records "[]" submitted_requests] show ?thesis by blast
qed

text \<open>
  C6 as it is written fails. On the requests feed of the dashboard two submitted requests
  delivered older first are handed over older first. On the feed of the distribution
  records a record without a usable timestamp between an older and a newer one leaves the
  three in the delivered order, the older before the newer.
\<close>

theorem requests_feed_order_counterexample:
  "map request_time (requests_onSnapshot submitted_requests) =
      [''2025-10-09T08:05:03.007Z'', ''2025-10-10T23:59:58.120Z'']
   \<and> \<not> newest_first request_time (requests_onSnapshot submitted_requests)
   \<and> map (\<lambda>doc. rec_timestamp (snd doc)) (records_onSnapshot undated_records)
        = [Num 1000, NaN, Num 2000]"
proof -
  have t0: "toISOString clock0 = ''2025-10-09T08:05:03.007Z''" by code_simp
  have t1: "toISOString clock1 = ''2025-10-10T23:59:58.120Z''" by code_simp
  have m: "map request_time (requests_onSnapshot submitted_requests) =
      [''2025-10-09T08:05:03.007Z'', ''2025-10-10T23:59:58.120Z'']"
    by (simp add: requests_onSnapshot_def submitted_requests_def request_time_def t0 t1)
  have lt: "\<not> (''2025-10-10T23:59:58.120Z'' \<le> ''2025-10-09T08:05:03.007Z'')" by simp
  have "newest_first request_time xs = sorted_wrt (\<lambda>a b. b \<le> a) (map request_time xs)" for xs
    by (simp add: newest_first_def sorted_wrt_map)
  then have n: "\<not> newest_first request_time (requests_onSnapshot submitted_requests)"
    using m lt by simp
  have u: "map (\<lambda>doc. rec_timestamp (snd doc)) (records_onSnapshot undated_records)
        = [Num 1000, NaN, Num 2000]"
    by (simp add: records_onSnapshot_def undated_records_def)
  from m n u show ?thesis by blast
qed

section \<open>What a citizen sees\<close>

lemma isCitizen_Some: "startsWith u ''citizen-'' \<Longrightarrow> isCitizen (Some u)"
  by (auto simp: isCitizen_def startsWith_def)

text \<open>
  C4. For a user identifier that starts with \<open>citizen-\<close>, the rendered records are records
  of the collection with that \<open>recipientId\<close> and no other; once the feed is subscribed
  (the store handle is set) they are exactly these, each once.
\<close>

theorem citizen_sees_own_records:
  assumes "startsWith u ''citizen-''"
  shows "set (records_rendered db0 (Some u) c) \<subseteq> {doc \<in> set c. recipientId (snd doc) = u}
       \<and> set (records_rendered True (Some u) c) = {doc \<in> set c. recipientId (snd doc) = u}
       \<and> mset (records_rendered True (Some u) c) =
           filter_mset (\<lambda>doc. recipientId (snd doc) = u) (mset c)"
proof -
  have ne: "u \<noteq> []" using assms by (auto simp: startsWith_def)
  have q: "recordsQuery (Some u) c = filter (\<lambda>doc. recipientId (snd doc) = u) c"
    using isCitizen_Some [OF assms] by (simp add: recordsQuery_def)
  have m: "mset (records_rendered True (Some u) c) =
           filter_mset (\<lambda>doc. recipientId (snd doc) = u) (mset c)"
    using ne by (simp add: records_rendered_def truthy_def q records_onSnapshot_mset)
  have s: "set (records_rendered True (Some u) c) = {doc \<in> set c. recipientId (snd doc) = u}"
    using arg_cong [OF m, of set_mset] by simp
  have "set (records_rendered db0 (Some u) c) \<subseteq> {doc \<in> set c. recipientId (snd doc) = u}"
  proof (cases db0)
    case True then show ?thesis using s by simp
  next
    case False then show ?thesis by (simp add: records_rendered_def)
  qed
  with s m show ?thesis by blast
qed

theorem citizen_sees_own_records_witness:
  "startsWith ''citizen-ab12'' ''citizen-''
   \<and> map fst (records_rendered True (Some ''citizen-ab12'') sample_records) = [''rec3'', ''rec1'']
   \<and> set (records_rendered True (Some ''citizen-ab12'') sample_records) =
       {doc \<in> set sample_records. recipientId (snd doc) = ''citizen-ab12''}"
proof -
  have h: "startsWith ''citizen-ab12'' ''citizen-''" by (simp add: startsWith_def)
  have r: "map fst (records_rendered True (Some ''citizen-ab12'') sample_records) = [''rec3'', ''rec1'']"
    by (simp add: records_rendered_def truthy_def recordsQuery_def isCitizen_def startsWith_def
        records_onSnapshot_def sample_records_def to_double_exact)
  from citizen_sees_own_records [OF h, of True sample_records] h r show ?thesis by blast
qed

section \<open>Who may update a record\<close>

text \<open>
  C10. For a user identifier that is absent or does not start with \<open>manager-\<close>, the status
  update of a distribution record writes nothing, whatever the record and the new status.
\<close>

theorem non_manager_cannot_update:
  assumes "\<forall>u. userId = Some u \<longrightarrow> \<not> startsWith u ''manager-''"
  shows "updateRecordStatus db0 userId c recordId newStatus = (None, c)"
  using assms by (cases userId) (auto simp: updateRecordStatus_def isManager_def)

theorem non_manager_cannot_update_witness:
  "updateRecordStatus True (Some ''citizen-ab12'') sample_records ''rec1'' ''Completed''
     = (None, sample_records)
   \<and> \<not> startsWith ''citizen-ab12'' ''manager-''"
proof -
  have h: "\<forall>u. Some ''citizen-ab12'' = Some u \<longrightarrow> \<not> startsWith u ''manager-''"
    by (simp add: startsWith_def)
  from non_manager_cannot_update [OF h, of True sample_records "''rec1''" "''Completed''"]
  show ?thesis by (simp add: startsWith_def)
qed

section \<open>Submitting a request\<close>

lemma digit_char_mem: "digit_char n \<in> set ''0123456789''"
  unfolding digit_char_def by (rule nth_mem) simp

lemma digit_char_not_T: "digit_char n \<noteq> CHR ''T''"
  using digit_char_mem [of n] by auto

lemma pad_no_T: "CHR ''T'' \<notin> set (pad k n)"
  by (induction k n rule: pad.induct) (auto simp: digit_char_not_T [symmetric])

lemma iso_date_no_T: "CHR ''T'' \<notin> set (iso_date d)"
  by (simp add: iso_date_def fmt_year_def pad_no_T)

lemma split_first_toISOString: "split_first (CHR ''T'') (toISOString d) = iso_date d"
proof -
  have "\<And>c. c \<in> set (iso_date d) \<Longrightarrow> c \<noteq> CHR ''T''"
    using iso_date_no_T by blast
  then show ?thesis
    by (simp add: split_first_def toISOString_def takeWhile_append2)
qed

lemma decimal_char:
  assumes "c \<in> set ''0123456789''"
  shows "\<not> is_space c" "c \<noteq> CHR ''+''" "c \<noteq> CHR ''-''" "c \<noteq> CHR ''x''" "c \<noteq> CHR ''X''"
    "is_digit 10 c" "is_digit 16 c"
  using assms by (auto simp: is_space_def is_digit_def digit_val_def)

lemma parseInt_decimal:
  assumes "is_decimal s"
  shows "parseInt s = to_double (int (digits_value 10 s))"
proof -
  from assms obtain c cs where s: "s = c # cs" and c: "c \<in> set ''0123456789''"
    and cs: "\<forall>x \<in> set cs. x \<in> set ''0123456789''"
    by (cases s) (auto simp: is_decimal_def list_all_iff)
  have all: "\<And>x. x \<in> set s \<Longrightarrow> is_digit 10 x"
    using s c cs decimal_char(6) by auto
  have hex: "take 2 s \<noteq> ''0x''" "take 2 s \<noteq> ''0X''"
    using s cs decimal_char(4,5) by (cases cs; auto)+
  have tw: "takeWhile (is_digit 10) s = s"
    using all by (simp add: takeWhile_eq_all_conv)
  have dw: "dropWhile is_space s = s"
    using s decimal_char(1) [OF c] by simp
  have hd: "hd s \<noteq> CHR ''+''" "hd s \<noteq> CHR ''-''" "s \<noteq> []"
    using s decimal_char(2,3) [OF c] by simp_all
  show ?thesis
    unfolding parseInt_def by (simp add: Let_def dw hd hex tw)
qed

text \<open>
  C5, as the code has it. A submission succeeds exactly when the store handle and the
  authentication are ready and the store accepts the new identifier; it then appends one
  document to the requests and changes no other. The document's status is \<open>Pending\<close>, its
  \<open>requestedDate\<close> is the year, month and day of the clock at the submission, its
  organization, item and contact are the form's, and its amount is \<open>parseInt\<close> of the form's
  amount text: for a decimal numeral the double nearest to the integer it denotes, which is
  that integer when it is below \<open>2^53\<close>.
\<close>

theorem submit_inserts_pending_request:
  "\<exists>r. handleSubmit db0 authReady now1 now2 newId f reqs =
         (if db0 \<and> authReady \<and> newId \<notin> set (map fst reqs)
          then (''success'',
                f\<lparr>organizationName := [], amount_input := ''10'', contactEmail_input := []\<rparr>,
                reqs @ [(newId, r)])
          else (''error'', f, reqs))
     \<and> status r = ''Pending''
     \<and> requestedDate r = iso_date now1
     \<and> organization r = organizationName f
     \<and> req_item r = requestedItem f
     \<and> contactEmail r = Some (contactEmail_input f)
     \<and> amount r = parseInt (amount_input f)
     \<and> (is_decimal (amount_input f) \<longrightarrow>
          amount r = to_double (int (digits_value 10 (amount_input f))))
     \<and> (is_decimal (amount_input f) \<longrightarrow> digits_value 10 (amount_input f) < 2 ^ 53 \<longrightarrow>
          amount r = Num (int (digits_value 10 (amount_input f))))"
proof -
  let ?r = "\<lparr>organization = organizationName f, req_item = requestedItem f,
             amount = parseInt (amount_input f), status = ''Pending'',
             contactEmail = Some (contactEmail_input f),
             requestedDate = split_first (CHR ''T'') (toISOString now1),
             processedBy = None, timestamp = Some (toISOString now2)\<rparr>"
  have e: "to_double (int n) = Num (int n)" if "n < 2 ^ 53" for n :: nat
  proof -
    have "int n < 2 ^ 53" using that by (metis of_nat_less_iff of_nat_numeral of_nat_power)
    then show ?thesis by (simp add: to_double_exact)
  qed
  show ?thesis
    apply (rule exI [of _ ?r])
    by (simp add: handleSubmit_def addDoc_def exists_doc_def Let_def split_first_toISOString
        parseInt_decimal e)
qed

text \<open>The scenario: Shelter A asks for 20 units of rice.\<close>

theorem submit_inserts_pending_request_witness:
  "\<exists>r. handleSubmit True True clock1 clock1 ''req3'' shelter_form (requests_coll seeded) =
         (''success'',
          \<lparr>organizationName = [], requestedItem = ''Rice'', amount_input = ''10'',
           contactEmail_input = []\<rparr>,
          requests_coll seeded @ [(''req3'', r)])
     \<and> status r = ''Pending'' \<and> requestedDate r = ''2025-10-10''
     \<and> organization r = ''Shelter A'' \<and> req_item r = ''Rice'' \<and> amount r = Num 20"
proof -
  have fresh: "''req3'' \<notin> set (map fst (requests_coll seeded))"
    by (simp add: seeded_def initialRequests_def)
  have dec: "is_decimal (amount_input shelter_form)"
    by (simp add: is_decimal_def shelter_form_def)
  have v: "digits_value 10 (amount_input shelter_form) = 20"
    by (simp add: digits_value_def shelter_form_def digit_val_def)
  have d: "iso_date clock1 = ''2025-10-10''" by code_simp
  from submit_inserts_pending_request [of True True clock1 clock1 "''req3''" shelter_form
      "requests_coll seeded"]
  obtain r where r: "handleSubmit True True clock1 clock1 ''req3'' shelter_form (requests_coll seeded) =
         (if True \<and> True \<and> ''req3'' \<notin> set (map fst (requests_coll seeded))
          then (''success'',
                shelter_form\<lparr>organizationName := [], amount_input := ''10'', contactEmail_input := []\<rparr>,
                requests_coll seeded @ [(''req3'', r)])
          else (''error'', shelter_form, requests_coll seeded))"
     "status r = ''Pending''" "requestedDate r = iso_date clock1"
     "organization r = organizationName shelter_form" "req_item r = requestedItem shelter_form"
     "is_decimal (amount_input shelter_form) \<longrightarrow>
        digits_value 10 (amount_input shelter_form) < 2 ^ 53 \<longrightarrow>
        amount r = Num (int (digits_value 10 (amount_input shelter_form)))"
    by blast
  show ?thesis
    apply (rule exI [of _ r])
    using r fresh dec v d by (simp add: shelter_form_def)
qed

text \<open>
  C5 as it is written fails. The amount text \<open>.5e1\<close>, the number 5 to the input field,
  stores \<open>NaN\<close>; the text \<open>1e3\<close> stores 1; the text \<open>9007199254740993\<close> stores
  9007199254740992.
\<close>

theorem submit_amount_counterexample:
  "map (\<lambda>doc. amount (snd doc)) (snd (snd (handleSubmit True True clock1 clock1 ''req3''
       (shelter_form\<lparr>amount_input := ''.5e1''\<rparr>) []))) = [NaN]
   \<and> map (\<lambda>doc. amount (snd doc)) (snd (snd (handleSubmit True True clock1 clock1 ''req3''
       (shelter_form\<lparr>amount_input := ''1e3''\<rparr>) []))) = [Num 1]
   \<and> map (\<lambda>doc. amount (snd doc)) (snd (snd (handleSubmit True True clock1 clock1 ''req3''
       (shelter_form\<lparr>amount_input := ''9007199254740993''\<rparr>) []))) = [Num 9007199254740992]"
proof -
  have a: "parseInt ''.5e1'' = NaN"
    by (simp add: parseInt_def is_space_def is_digit_def digit_val_def)
  have b: "parseInt ''1e3'' = Num 1"
    by (simp add: parseInt_def is_space_def is_digit_def digit_val_def digits_value_def
        to_double_exact)
  have "is_decimal ''9007199254740993''" by (simp add: is_decimal_def)
  moreover have "digits_value 10 ''9007199254740993'' = 9007199254740993"
    by (simp add: digits_value_def digit_val_def)
  ultimately have c: "parseInt ''9007199254740993'' = Num 9007199254740992"
    by (simp add: parseInt_decimal to_double_2_53_plus_1)
  show ?thesis
    by (simp add: handleSubmit_def addDoc_def exists_doc_def shelter_form_def a b c)
qed

end
